theory Spec2Isabelle
  imports Main "HOL-Library.Sublist"
begin

section \<open>Strings and dictionaries of the runner\<close>

text \<open>
  The build runner \<^verbatim>\<open>builder.py\<close> works on Python strings and on insertion-ordered
  dictionaries from strings to strings. A Python string is a \<open>string\<close> here, one
  \<open>char\<close> per character of the text. A dictionary is an association list with
  pairwise distinct keys, in insertion order. Values that YAML delivers as numbers
  or booleans are represented by the text \<^verbatim>\<open>str()\<close> gives them, which is what
  every use in the program turns them into before substitution.
\<close>

text \<open>
  \<^verbatim>\<open>str.replace(old, new)\<close>: all occurrences of \<open>old\<close>, found left to right without
  overlap, are replaced by \<open>new\<close>; the inserted text is not scanned again. For the
  empty \<open>old\<close> Python inserts \<open>new\<close> before every character and at the end.
\<close>

fun replace :: "string \<Rightarrow> string \<Rightarrow> string \<Rightarrow> string" where
  "replace [] old new = (if old = [] then new else [])"
| "replace (c # cs) old new =
     (if old = [] then new @ c # replace cs old new
      else if prefix old (c # cs) then new @ replace (drop (length old - 1) cs) old new
      else c # replace cs old new)"

text \<open>\<^verbatim>\<open>sep.join(xs)\<close>.\<close>

fun join :: "string \<Rightarrow> string list \<Rightarrow> string" where
  "join sep [] = []"
| "join sep [x] = x"
| "join sep (x # y # ys) = x @ sep @ join sep (y # ys)"

type_synonym dict = "(string \<times> string) list"

text \<open>\<^verbatim>\<open>d[k] = v\<close>: an existing key keeps its position, a new key goes to the end.\<close>

fun dict_set :: "dict \<Rightarrow> string \<Rightarrow> string \<Rightarrow> dict" where
  "dict_set [] k v = [(k, v)]"
| "dict_set ((k', v') # d) k v =
     (if k' = k then (k', v) # d else (k', v') # dict_set d k v)"

text \<open>\<^verbatim>\<open>{**a, **b}\<close>: the entries of \<open>a\<close>, overlaid with those of \<open>b\<close>.\<close>

fun dict_merge :: "dict \<Rightarrow> dict \<Rightarrow> dict" where
  "dict_merge a [] = a"
| "dict_merge a ((k, v) # b) = dict_merge (dict_set a k v) b"

section \<open>Configuration, program state and the outside world\<close>

text \<open>
  A configuration node is the mapping that \<^verbatim>\<open>yaml.safe_load\<close> returns; each field is
  \<open>None\<close> when the key is absent. The root of the configuration has the keys of a
  node and the \<^verbatim>\<open>projects\<close> mapping, in file order.
\<close>

record node =
  variables_key :: "dict option"
  environment_key :: "dict option"
  path_key :: "string option"
  build_key :: "string list option"
  test_key :: "string list option"

record config = node +
  projects :: "(string \<times> node) list"

text \<open>
  The parsed command line: \<^verbatim>\<open>args.no_build\<close>, \<^verbatim>\<open>args.test\<close>,
  \<^verbatim>\<open>args.operating_system\<close> and \<^verbatim>\<open>args.build_type\<close>.
\<close>

record args =
  arg_no_build :: bool
  arg_test :: bool
  arg_operating_system :: string
  arg_build_type :: string

text \<open>
  The dictionaries \<^verbatim>\<open>variables\<close>, \<^verbatim>\<open>environment\<close> and \<^verbatim>\<open>user_variables\<close> are Python
  objects that are passed by reference and updated in place, so the model keeps
  them in a store: a reference is an address, the store maps addresses to
  dictionaries. What the process writes and which shell commands it starts is
  recorded in a trace, in order; \<open>Traceback e\<close> is the report of the interpreter
  about the exception \<open>e\<close> that nothing caught.
\<close>

type_synonym ref = nat

datatype event =
  Stdout string
| Stderr string
| Call string string dict
| Traceback string

record state =
  objs :: "ref \<Rightarrow> dict"
  trace :: "event list"

text \<open>
  What the program takes from its libraries and from the operating system:
  the current directory, \<^verbatim>\<open>os.path.expanduser\<close>, \<^verbatim>\<open>re.compile\<close>,
  the exit code of \<^verbatim>\<open>subprocess.call(cmd, env=env, cwd=cwd, shell=True)\<close>,
  \<^verbatim>\<open>os.environ\<close>, and the text \<^verbatim>\<open>str()\<close> gives for a project mapping.

  \<^verbatim>\<open>re.compile(p)\<close> raises \<^verbatim>\<open>re.error\<close> for a text that is not a regular expression,
  which is \<open>None\<close> here, and returns a pattern object otherwise. Of a pattern
  object the program uses the method \<^verbatim>\<open>match\<close> only: \<^verbatim>\<open>regex.match(s)\<close> looks for a
  match that begins at index 0 of \<open>s\<close> and returns \<^verbatim>\<open>None\<close> or a match object, whose
  span is from 0 to some index \<open>n\<close>. A pattern object is therefore the function
  that gives, for a subject, \<open>None\<close> or the end \<open>n\<close> of the match.
\<close>

type_synonym pattern = "string \<Rightarrow> nat option"

record world =
  getcwd :: string
  expanduser :: "string \<Rightarrow> string"
  re_compile :: "string \<Rightarrow> pattern option"
  subprocess_call :: "string \<Rightarrow> string \<Rightarrow> dict \<Rightarrow> int"
  environ :: dict
  str_of_node :: "node \<Rightarrow> string"

text \<open>
  A function that may end the process returns \<open>Inl n\<close> for \<^verbatim>\<open>exit(n)\<close> and
  \<open>Inr x\<close> when it returns \<open>x\<close>.
\<close>

type_synonym 'a result = "(nat + 'a) \<times> state"

section \<open>The functions of \<^verbatim>\<open>builder.py\<close>\<close>

definition error :: "string \<Rightarrow> state \<Rightarrow> 'a result" where
  "error t st = (Inl 1, st\<lparr>trace := trace st @ [Stderr (''ERROR: '' @ t)]\<rparr>)"

text \<open>
  An exception that nothing catches: the interpreter reports it and the process
  ends with exit status 1.
\<close>

definition uncaught :: "string \<Rightarrow> state \<Rightarrow> 'a result" where
  "uncaught e st = (Inl 1, st\<lparr>trace := trace st @ [Traceback e]\<rparr>)"

text \<open>
  The banner command. In the Python literals \<^verbatim>\<open>\\n\<close> is a backslash followed by
  the letter n, left for \<^verbatim>\<open>echo -e\<close> to turn into a line break.
\<close>

definition bs_n :: string where
  "bs_n = [CHR 0x5C, CHR ''n'']"

definition banner :: "string \<Rightarrow> string" where
  "banner t0 =
     (let t = (if length t0 > 110 then take 110 t0 else t0);
          sep = ''########'' @ concat (map (\<lambda>_. ''#'') t)
      in (''echo -e '' @ [CHR 0x27] @ bs_n) @ sep @ (bs_n @ ''### '') @ t
           @ ('' ###'' @ bs_n) @ sep @ (bs_n @ [CHR 0x27]))"

text \<open>One \<^verbatim>\<open>for v in d: value = str(value).replace('{' + v + '}', d[v])\<close> loop.\<close>

fun replace_each :: "string \<Rightarrow> dict \<Rightarrow> string" where
  "replace_each s [] = s"
| "replace_each s ((v, x) # d) = replace_each (replace s (''{'' @ v @ ''}'') x) d"

definition replace_with_variables :: "string \<Rightarrow> dict \<Rightarrow> dict \<Rightarrow> string" where
  "replace_with_variables s variables user_variables =
     replace_each (replace_each s user_variables) variables"

text \<open>
  \<^verbatim>\<open>extract_variables\<close> writes every declared variable into the dictionary it was
  given and returns that same dictionary; each template is resolved against the
  dictionary as it is at that moment.
\<close>

fun extract_variables_loop :: "dict \<Rightarrow> ref \<Rightarrow> ref \<Rightarrow> state \<Rightarrow> state" where
  "extract_variables_loop [] variables user_variables st = st"
| "extract_variables_loop ((var, tmpl) # rest) variables user_variables st =
     extract_variables_loop rest variables user_variables
       (st\<lparr>objs := (objs st)(variables :=
          dict_set (objs st variables) var
            (replace_with_variables tmpl (objs st variables) (objs st user_variables)))\<rparr>)"

definition extract_variables ::
  "'a node_scheme \<Rightarrow> ref \<Rightarrow> ref \<Rightarrow> state \<Rightarrow> ref \<times> state" where
  "extract_variables root variables user_variables st =
     (case variables_key root of
        Some vs \<Rightarrow> (variables, extract_variables_loop vs variables user_variables st)
      | None \<Rightarrow> (variables, st))"

fun extract_environment_loop :: "dict \<Rightarrow> ref \<Rightarrow> ref \<Rightarrow> ref \<Rightarrow> state \<Rightarrow> state" where
  "extract_environment_loop [] environment variables user_variables st = st"
| "extract_environment_loop ((var, tmpl) # rest) environment variables user_variables st =
     extract_environment_loop rest environment variables user_variables
       (st\<lparr>objs := (objs st)(environment :=
          dict_set (objs st environment) var
            (replace_with_variables tmpl (objs st variables) (objs st user_variables)))\<rparr>)"

definition extract_environment ::
  "'a node_scheme \<Rightarrow> ref \<Rightarrow> ref \<Rightarrow> ref \<Rightarrow> state \<Rightarrow> ref \<times> state" where
  "extract_environment root environment variables user_variables st =
     (case environment_key root of
        Some es \<Rightarrow>
          (environment, extract_environment_loop es environment variables user_variables st)
      | None \<Rightarrow> (environment, st))"

text \<open>
  \<^verbatim>\<open>get_path\<close>. \<^verbatim>\<open>match.group()\<close> is the part of the subject in the span of the
  match, \<^verbatim>\<open>s[0:n]\<close>. The results: the matched text, \<open>None\<close> when the pattern does
  not match at the start of the current directory, the exception of
  \<^verbatim>\<open>re.compile\<close>, which the program does not catch, and the fatal error when the
  key is missing.
\<close>

definition get_path :: "world \<Rightarrow> node \<Rightarrow> ref \<Rightarrow> ref \<Rightarrow> state \<Rightarrow> string option result" where
  "get_path w root variables user_variables st =
     (case path_key root of
        Some p \<Rightarrow>
          (let path = expanduser w
                 (replace_with_variables p (objs st variables) (objs st user_variables))
           in case re_compile w path of
                None \<Rightarrow> uncaught ''re.error'' st
              | Some regex \<Rightarrow>
                  (case regex (getcwd w) of
                     Some n \<Rightarrow> (Inr (Some (take n (getcwd w))), st)
                   | None \<Rightarrow> (Inr None, st)))
      | None \<Rightarrow> error (''No path in '' @ str_of_node w root) st)"

fun get_build_steps :: "node \<Rightarrow> string list" where
  "get_build_steps root = (case build_key root of Some xs \<Rightarrow> xs | None \<Rightarrow> [])"

fun get_test_steps :: "node \<Rightarrow> string list" where
  "get_test_steps root = (case test_key root of Some xs \<Rightarrow> xs | None \<Rightarrow> [])"

definition execute_command :: "world \<Rightarrow> string \<Rightarrow> string \<Rightarrow> ref \<Rightarrow> state \<Rightarrow> unit result" where
  "execute_command w cmd cwd environment st =
     (let st1 = st\<lparr>trace := trace st @ [Stdout cmd]\<rparr>;
          env = dict_merge (environ w) (objs st1 environment);
          retcode = subprocess_call w cmd cwd env;
          st2 = st1\<lparr>trace := trace st1 @ [Call cmd cwd env]\<rparr>
      in if retcode \<noteq> 0
         then error (''Execution of '' @ [CHR 0x22] @ cmd @ [CHR 0x22] @ '' failed.'') st2
         else (Inr (), st2))"

text \<open>
  The loop over the steps of a phase, which is the same in \<^verbatim>\<open>build\<close> and
  \<^verbatim>\<open>test\<close>: \<open>cmd\<close> is the list built so far.
\<close>

fun steps_loop :: "string list \<Rightarrow> dict \<Rightarrow> dict \<Rightarrow> string list \<Rightarrow> string list" where
  "steps_loop [] variables user_variables cmd = cmd"
| "steps_loop (step0 # rest) variables user_variables cmd =
     (let step = replace_with_variables step0 variables user_variables;
          cmd1 = (if length cmd > 0 then cmd @ [''&&''] else cmd)
      in steps_loop rest variables user_variables (cmd1 @ [banner step, ''&&'', step]))"

definition build ::
  "world \<Rightarrow> node \<Rightarrow> string \<Rightarrow> ref \<Rightarrow> ref \<Rightarrow> ref \<Rightarrow> state \<Rightarrow> unit result" where
  "build w proj_root path variables0 environment0 user_variables st =
     (case build_key proj_root of
        None \<Rightarrow> (Inr (), st)
      | Some steps \<Rightarrow>
          (let (variables, st1) = extract_variables proj_root variables0 user_variables st;
               (environment, st2) =
                  extract_environment proj_root environment0 variables user_variables st1;
               cmd = steps_loop steps (objs st2 variables) (objs st2 user_variables) []
           in execute_command w (join '' '' cmd) path environment st2))"

definition test ::
  "world \<Rightarrow> node \<Rightarrow> string \<Rightarrow> ref \<Rightarrow> ref \<Rightarrow> ref \<Rightarrow> state \<Rightarrow> unit result" where
  "test w proj_root path variables0 environment0 user_variables st =
     (case test_key proj_root of
        None \<Rightarrow> (Inr (), st)
      | Some steps \<Rightarrow>
          (let (variables, st1) = extract_variables proj_root variables0 user_variables st;
               (environment, st2) =
                  extract_environment proj_root environment0 variables user_variables st1;
               cmd = steps_loop steps (objs st2 variables) (objs st2 user_variables) []
           in execute_command w (join '' '' cmd) path environment st2))"

text \<open>Python's \<^verbatim>\<open>not path\<close> for a value that is \<^verbatim>\<open>None\<close> or a string.\<close>

fun py_not :: "string option \<Rightarrow> bool" where
  "py_not None = True"
| "py_not (Some s) = (s = [])"

text \<open>
  What \<^verbatim>\<open>main\<close> does for a project whose path is accepted: the build unless
  \<^verbatim>\<open>--no-build\<close>, then the tests if \<^verbatim>\<open>--test\<close>, then \<^verbatim>\<open>return\<close>.
\<close>

definition handle_project ::
  "world \<Rightarrow> args \<Rightarrow> node \<Rightarrow> string \<Rightarrow> ref \<Rightarrow> ref \<Rightarrow> ref \<Rightarrow> state \<Rightarrow> unit result" where
  "handle_project w a project path project_vars environment user_variables st =
     (case (if \<not> arg_no_build a
            then build w project path project_vars environment user_variables st
            else (Inr (), st)) of
        (Inl n, st1) \<Rightarrow> (Inl n, st1)
      | (Inr _, st1) \<Rightarrow>
          (if arg_test a
           then test w project path project_vars environment user_variables st1
           else (Inr (), st1)))"

text \<open>The loop \<^verbatim>\<open>for p in config['projects']\<close> with the call of \<^verbatim>\<open>error\<close> after it.\<close>

fun projects_loop ::
  "world \<Rightarrow> args \<Rightarrow> (string \<times> node) list \<Rightarrow> ref \<Rightarrow> ref \<Rightarrow> ref \<Rightarrow> state \<Rightarrow> unit result" where
  "projects_loop w a [] variables environment user_variables st =
     error ''No matching configuration entry found.'' st"
| "projects_loop w a ((p, project) # rest) variables environment user_variables st =
     (let (project_vars, st1) = extract_variables project variables user_variables st
      in case get_path w project project_vars user_variables st1 of
           (Inl n, st2) \<Rightarrow> (Inl n, st2)
         | (Inr path, st2) \<Rightarrow>
             (if py_not path
              then projects_loop w a rest variables environment user_variables st2
              else handle_project w a project (case path of Some m \<Rightarrow> m | None \<Rightarrow> [])
                     project_vars environment user_variables st2))"

text \<open>
  \<^verbatim>\<open>main\<close>, from the point where the command line is parsed and the configuration
  is loaded: \<open>uv\<close> is the dictionary built from the \<^verbatim>\<open>-v\<close> options. The three
  dictionaries \<^verbatim>\<open>main\<close> creates live at the addresses 0, 1 and 2. The first part,
  up to the loop, sets up the global variables and the global environment and
  gives the references to them with the state reached.
\<close>

definition main_scopes :: "args \<Rightarrow> dict \<Rightarrow> config \<Rightarrow> ref \<times> ref \<times> ref \<times> state" where
  "main_scopes a uv cfg =
     (let user_variables = 0;
          st0 = \<lparr>objs = (\<lambda>_. [])(user_variables := uv), trace = []\<rparr>;
          st1 = st0\<lparr>objs := (objs st0)(1 := [])\<rparr>;
          st2 = st1\<lparr>objs := (objs st1)(1 := dict_set (objs st1 1) ''os'' (arg_operating_system a))\<rparr>;
          st3 = st2\<lparr>objs := (objs st2)(1 := dict_set (objs st2 1) ''bt'' (arg_build_type a))\<rparr>;
          (variables, st4) = extract_variables cfg 1 user_variables st3;
          st5 = st4\<lparr>objs := (objs st4)(2 := [])\<rparr>;
          (environment, st6) = extract_environment cfg 2 variables user_variables st5
      in (variables, environment, user_variables, st6))"

definition main :: "world \<Rightarrow> args \<Rightarrow> dict \<Rightarrow> config \<Rightarrow> unit result" where
  "main w a uv cfg =
     (let (variables, environment, user_variables, st) = main_scopes a uv cfg
      in projects_loop w a (projects cfg) variables environment user_variables st)"

text \<open>The exit status of the process.\<close>

fun exit_status :: "unit result \<Rightarrow> nat" where
  "exit_status (Inl n, st) = n"
| "exit_status (Inr u, st) = 0"

section \<open>Notions used in the statements and proofs\<close>

text \<open>
  A trace in which every shell command that was started returned 0.
\<close>

fun no_fail :: "world \<Rightarrow> event list \<Rightarrow> bool" where
  "no_fail w [] = True"
| "no_fail w (Call c d e # evs) = (subprocess_call w c d e = 0 \<and> no_fail w evs)"
| "no_fail w (Stdout s # evs) = no_fail w evs"
| "no_fail w (Stderr s # evs) = no_fail w evs"
| "no_fail w (Traceback s # evs) = no_fail w evs"

text \<open>The line \<^verbatim>\<open>execute_command\<close> writes for a command that failed.\<close>

definition failure_text :: "string \<Rightarrow> string" where
  "failure_text cmd = ''ERROR: Execution of '' @ [CHR 0x22] @ cmd @ [CHR 0x22] @ '' failed.''"

text \<open>
  A trace that ends with a failed command and its error line, all commands before
  having returned 0; and the results a run can end with: a return after commands
  that all returned 0, or exit status 1, after such commands or right after the
  first failed one.
\<close>

definition failed_at :: "world \<Rightarrow> event list \<Rightarrow> bool" where
  "failed_at w tr =
     (\<exists>evs c d e. tr = evs @ [Call c d e, Stderr (failure_text c)]
        \<and> no_fail w evs \<and> subprocess_call w c d e \<noteq> 0)"

definition fine :: "world \<Rightarrow> unit result \<Rightarrow> bool" where
  "fine w r =
     (case fst r of
        Inr _ \<Rightarrow> no_fail w (trace (snd r))
      | Inl n \<Rightarrow> n = 1 \<and> (no_fail w (trace (snd r)) \<or> failed_at w (trace (snd r))))"

text \<open>
  No project is accepted: \<^verbatim>\<open>get_path\<close>, called for the projects in turn as the loop
  of \<^verbatim>\<open>main\<close> calls it, returns \<^verbatim>\<open>None\<close> or the empty string every time.
\<close>

fun no_match :: "world \<Rightarrow> (string \<times> node) list \<Rightarrow> ref \<Rightarrow> ref \<Rightarrow> state \<Rightarrow> bool" where
  "no_match w [] variables user_variables st = True"
| "no_match w ((p, project) # rest) variables user_variables st =
     (let (project_vars, st1) = extract_variables project variables user_variables st
      in case get_path w project project_vars user_variables st1 of
           (Inl n, st2) \<Rightarrow> False
         | (Inr path, st2) \<Rightarrow> py_not path \<and> no_match w rest variables user_variables st2)"

section \<open>What the shell prints for a banner command\<close>








section \<open>Concrete inputs\<close>

text \<open>
  An environment for runs whose path patterns consist of ordinary characters and
  do not start with a tilde, or are the text \<open>(\<close>: a pattern of ordinary
  characters matches exactly when it is a prefix of the subject, and the match
  ends where the pattern ends; \<^verbatim>\<open>re.compile\<close> rejects the text \<open>(\<close>, a group that is
  not closed; \<^verbatim>\<open>expanduser\<close> returns its argument. The exit codes of the shell are
  given by \<open>sh\<close>; the process environment is empty.
\<close>

definition plain_world :: "string \<Rightarrow> (string \<Rightarrow> string \<Rightarrow> dict \<Rightarrow> int) \<Rightarrow> world" where
  "plain_world cwd sh =
     \<lparr>getcwd = cwd, expanduser = (\<lambda>p. p),
      re_compile = (\<lambda>pat. if pat = ''('' then None
                         else Some (\<lambda>s. if prefix pat s then Some (length pat) else None)),
      subprocess_call = sh, environ = [], str_of_node = (\<lambda>_. ''{}'')\<rparr>"

definition empty_node :: node where
  "empty_node = \<lparr>variables_key = None, environment_key = None, path_key = None,
     build_key = None, test_key = None\<rparr>"

definition config_of :: "(string \<times> node) list \<Rightarrow> config" where
  "config_of ps = node.extend empty_node (config.fields ps)"

text \<open>A state without dictionaries and output, and a shell that returns \<open>n\<close>.\<close>

definition empty_state :: state where
  "empty_state = \<lparr>objs = (\<lambda>_. []), trace = []\<rparr>"

definition shell_returns :: "int \<Rightarrow> string \<Rightarrow> string \<Rightarrow> dict \<Rightarrow> int" where
  "shell_returns n cmd cwd env = n"

definition default_args :: args where
  "default_args = \<lparr>arg_no_build = False, arg_test = False,
     arg_operating_system = ''fedora'', arg_build_type = ''Release''\<rparr>"

section \<open>Properties\<close>

subsection \<open>Replacement of placeholders\<close>

lemma replace_absent_head:
  "c0 \<notin> set s \<Longrightarrow> replace s (c0 # old) new = s"
  by (induction s) auto

lemma replace_self: "p \<noteq> [] \<Longrightarrow> replace p p new = new"
  by (cases p) auto

lemma prefix_snoc_same:
  "c \<notin> set k \<Longrightarrow> prefix (k' @ [c]) (k @ [c]) \<Longrightarrow> k' = k"
proof (induction k arbitrary: k')
  case Nil
  then show ?case by (cases k') auto
next
  case (Cons x xs)
  then show ?case by (cases k') auto
qed

lemma replace_other_placeholder:
  assumes "CHR ''{'' \<notin> set k" "CHR ''}'' \<notin> set k" "k' \<noteq> k"
  shows "replace (''{'' @ k @ ''}'') (''{'' @ k' @ ''}'') new = ''{'' @ k @ ''}''"
proof -
  have np: "\<not> prefix (k' @ ''}'') (k @ ''}'')"
    using assms prefix_snoc_same[of "CHR ''}''" k k'] by auto
  have "replace (k @ ''}'') (CHR ''{'' # k' @ ''}'') new = k @ ''}''"
    using assms by (intro replace_absent_head) auto
  with np show ?thesis by simp
qed

lemma replace_each_no_brace:
  "CHR ''{'' \<notin> set s \<Longrightarrow> replace_each s d = s"
  by (induction d arbitrary: s) (auto simp: replace_absent_head)

lemma replace_each_other_keys:
  assumes "CHR ''{'' \<notin> set k" "CHR ''}'' \<notin> set k" "k \<notin> fst ` set d"
  shows "replace_each (''{'' @ k @ ''}'') d = ''{'' @ k @ ''}''"
  using assms(3)
proof (induction d)
  case Nil
  then show ?case by simp
next
  case (Cons e d)
  obtain k' x where e: "e = (k', x)" by (cases e)
  with Cons.prems have "k' \<noteq> k" by auto
  then have "replace (''{'' @ k @ ''}'') (''{'' @ k' @ ''}'') x = ''{'' @ k @ ''}''"
    using assms(1,2) by (rule replace_other_placeholder[rotated 2])
  with Cons e show ?case by simp
qed

lemma replace_each_append:
  "replace_each s (d @ e) = replace_each (replace_each s d) e"
  by (induction d arbitrary: s) auto

subsection \<open>Traces of the functions\<close>

lemma no_fail_append [simp]: "no_fail w (xs @ ys) = (no_fail w xs \<and> no_fail w ys)"
  by (induction w xs rule: no_fail.induct) auto

lemma no_fail_Call: "no_fail w evs \<Longrightarrow> Call c d e \<in> set evs \<Longrightarrow> subprocess_call w c d e = 0"
  by (induction w evs rule: no_fail.induct) auto

lemma extract_variables_loop_trace [simp]:
  "trace (extract_variables_loop vs v u st) = trace st"
  by (induction vs arbitrary: st) auto

lemma extract_environment_loop_trace [simp]:
  "trace (extract_environment_loop es e v u st) = trace st"
  by (induction es arbitrary: st) auto

lemma extract_variables_result:
  "extract_variables root v u st = (pv, st1) \<Longrightarrow> pv = v \<and> trace st1 = trace st"
  by (auto simp: extract_variables_def split: option.splits)

lemma extract_environment_result:
  "extract_environment root e v u st = (pe, st1) \<Longrightarrow> pe = e \<and> trace st1 = trace st"
  by (auto simp: extract_environment_def split: option.splits)

lemma execute_command_fine:
  assumes "no_fail w (trace st)"
  shows "fine w (execute_command w cmd cwd e st)"
proof (cases "subprocess_call w cmd cwd (dict_merge (environ w) (objs st e)) = 0")
  case True
  with assms show ?thesis
    by (simp add: execute_command_def fine_def Let_def)
next
  case False
  let ?env = "dict_merge (environ w) (objs st e)"
  have "trace (snd (execute_command w cmd cwd e st)) =
          (trace st @ [Stdout cmd]) @ [Call cmd cwd ?env, Stderr (failure_text cmd)]"
    using False by (simp add: execute_command_def error_def Let_def failure_text_def)
  moreover have "no_fail w (trace st @ [Stdout cmd])" using assms by simp
  ultimately have "failed_at w (trace (snd (execute_command w cmd cwd e st)))"
    unfolding failed_at_def using False by blast
  moreover have "fst (execute_command w cmd cwd e st) = Inl 1"
    using False by (simp add: execute_command_def error_def Let_def)
  ultimately show ?thesis by (simp add: fine_def)
qed

lemma build_fine:
  assumes "no_fail w (trace st)"
  shows "fine w (build w p path v e u st)"
proof (cases "build_key p")
  case None
  with assms show ?thesis by (simp add: build_def fine_def)
next
  case (Some steps)
  obtain pv st1 where 1: "extract_variables p v u st = (pv, st1)" by force
  obtain pe st2 where 2: "extract_environment p e pv u st1 = (pe, st2)" by force
  from 1 2 assms have "no_fail w (trace st2)"
    by (auto dest!: extract_variables_result extract_environment_result)
  then show ?thesis
    using Some 1 2 by (simp add: build_def execute_command_fine)
qed

lemma test_fine:
  assumes "no_fail w (trace st)"
  shows "fine w (test w p path v e u st)"
proof (cases "test_key p")
  case None
  with assms show ?thesis by (simp add: test_def fine_def)
next
  case (Some steps)
  obtain pv st1 where 1: "extract_variables p v u st = (pv, st1)" by force
  obtain pe st2 where 2: "extract_environment p e pv u st1 = (pe, st2)" by force
  from 1 2 assms have "no_fail w (trace st2)"
    by (auto dest!: extract_variables_result extract_environment_result)
  then show ?thesis
    using Some 1 2 by (simp add: test_def execute_command_fine)
qed

lemma handle_project_fine:
  assumes "no_fail w (trace st)"
  shows "fine w (handle_project w a p path v e u st)"
proof -
  let ?b = "if \<not> arg_no_build a then build w p path v e u st else (Inr (), st)"
  have b: "fine w ?b"
  proof (cases "arg_no_build a")
    case True
    with assms show ?thesis by (simp add: fine_def)
  next
    case False
    with assms show ?thesis by (simp add: build_fine)
  qed
  obtain r st1 where r: "?b = (r, st1)" by force
  show ?thesis
  proof (cases r)
    case (Inl n)
    with b r show ?thesis by (simp add: handle_project_def)
  next
    case (Inr x)
    with b r have "no_fail w (trace st1)" by (simp add: fine_def)
    then have "fine w (if arg_test a then test w p path v e u st1 else (Inr (), st1))"
      by (cases "arg_test a") (simp_all add: test_fine, simp add: fine_def)
    with r Inr show ?thesis by (simp add: handle_project_def)
  qed
qed

lemma get_path_result:
  "get_path w p v u st = (r, st') \<Longrightarrow>
     (\<exists>m. r = Inr m \<and> st' = st) \<or>
     (r = Inl 1 \<and> (\<exists>t. trace st' = trace st @ [Stderr t] \<or> trace st' = trace st @ [Traceback t]))"
  by (auto simp: get_path_def error_def uncaught_def Let_def split: option.splits)

lemma projects_loop_fine:
  "no_fail w (trace st) \<Longrightarrow> fine w (projects_loop w a ps v e u st)"
proof (induction ps arbitrary: st)
  case Nil
  then show ?case by (simp add: error_def fine_def)
next
  case (Cons np ps)
  obtain n p where np: "np = (n, p)" by (cases np)
  obtain pv st1 where 1: "extract_variables p v u st = (pv, st1)" by force
  obtain r st2 where 2: "get_path w p pv u st1 = (r, st2)" by force
  from 1 Cons.prems have nf1: "no_fail w (trace st1)"
    by (auto dest!: extract_variables_result)
  from get_path_result[OF 2] show ?case
  proof
    assume "\<exists>m. r = Inr m \<and> st2 = st1"
    then obtain m where m: "r = Inr m" "st2 = st1" by blast
    show ?thesis
      using np 1 2 m nf1 Cons.IH[of st1] handle_project_fine[of w st1]
      by simp
  next
    assume a: "r = Inl 1 \<and>
      (\<exists>t. trace st2 = trace st1 @ [Stderr t] \<or> trace st2 = trace st1 @ [Traceback t])"
    then have "no_fail w (trace st2)" using nf1 by auto
    with a show ?thesis
      using np 1 2 by (simp add: fine_def)
  qed
qed


lemma main_scopes_trace:
  "main_scopes a uv cfg = (v, e, u, st) \<Longrightarrow> trace st = []"
  by (auto simp: main_scopes_def Let_def extract_variables_def extract_environment_def
      split: prod.splits option.splits)

lemma main_fine: "fine w (main w a uv cfg)"
proof -
  obtain v e u st where s: "main_scopes a uv cfg = (v, e, u, st)"
    by (cases "main_scopes a uv cfg") auto
  then have "no_fail w (trace st)" by (simp add: main_scopes_trace)
  then show ?thesis using s by (simp add: main_def projects_loop_fine)
qed

lemma failed_at_split:
  assumes "failed_at w (pre @ Call cmd cwd env # post)"
    and "subprocess_call w cmd cwd env \<noteq> 0"
  shows "post = [Stderr (failure_text cmd)]"
proof -
  from assms(1) obtain evs c d e where
    eq: "pre @ Call cmd cwd env # post = evs @ [Call c d e, Stderr (failure_text c)]"
    and nf: "no_fail w evs"
    unfolding failed_at_def by blast
  show ?thesis
  proof (cases post rule: rev_cases)
    case Nil
    with eq show ?thesis by simp
  next
    case (snoc post1 z)
    with eq have z: "z = Stderr (failure_text c)"
      and eq1: "pre @ Call cmd cwd env # post1 = evs @ [Call c d e]"
      by simp_all
    show ?thesis
    proof (cases post1 rule: rev_cases)
      case Nil
      with eq1 have "c = cmd" by simp
      with z snoc Nil show ?thesis by simp
    next
      case (snoc post2 y)
      with eq1 have "pre @ Call cmd cwd env # post2 = evs" by simp
      then have "Call cmd cwd env \<in> set evs" by auto
      with nf assms(2) show ?thesis by (auto dest: no_fail_Call)
    qed
  qed
qed

lemma no_match_loop:
  "no_match w ps v u st \<Longrightarrow>
     fst (projects_loop w a ps v e u st) = Inl 1 \<and>
     trace (snd (projects_loop w a ps v e u st)) =
       trace st @ [Stderr ''ERROR: No matching configuration entry found.'']"
proof (induction ps arbitrary: st)
  case Nil
  then show ?case by (simp add: error_def)
next
  case (Cons np ps)
  obtain n p where np: "np = (n, p)" by (cases np)
  obtain pv st1 where 1: "extract_variables p v u st = (pv, st1)" by force
  obtain r st2 where 2: "get_path w p pv u st1 = (r, st2)" by force
  from Cons.prems np 1 2 obtain m where m: "r = Inr m" "py_not m" "no_match w ps v u st2"
    by (cases r) auto
  from get_path_result[OF 2] m have "st2 = st1" by auto
  moreover from 1 have "trace st1 = trace st" by (auto dest: extract_variables_result)
  ultimately show ?case
    using np 1 2 m Cons.IH[of st2] by simp
qed

lemma skip_prefix:
  "no_match w pre v u st \<Longrightarrow>
     projects_loop w a (pre @ ps) v e u st =
     projects_loop w a ps v e u (fold (\<lambda>np s. snd (extract_variables (snd np) v u s)) pre st)"
proof (induction pre arbitrary: st)
  case Nil
  then show ?case by simp
next
  case (Cons np pre)
  obtain n p where np: "np = (n, p)" by (cases np)
  obtain pv st1 where 1: "extract_variables p v u st = (pv, st1)" by force
  obtain r st2 where 2: "get_path w p pv u st1 = (r, st2)" by force
  from Cons.prems np 1 2 obtain m where m: "r = Inr m" "py_not m" "no_match w pre v u st2"
    by (cases r) auto
  from get_path_result[OF 2] m have "st2 = st1" by auto
  then show ?case
    using np 1 2 m Cons.IH[of st2] by simp
qed

lemma accepted_head:
  assumes "extract_variables p v u st = (pv, st1)"
    and "get_path w p pv u st1 = (Inr (Some m), st2)" and "m \<noteq> []"
  shows "projects_loop w a ((n, p) # rest) v e u st = handle_project w a p m pv e u st1"
proof -
  from get_path_result[OF assms(2)] have "st2 = st1" by auto
  with assms show ?thesis by simp
qed

lemmas run_defs = main_def main_scopes_def plain_world_def empty_node_def config_of_def
  default_args_def node.defs config.defs extract_variables_def extract_environment_def
  get_path_def handle_project_def build_def test_def execute_command_def error_def
  uncaught_def
  replace_with_variables_def Let_def

subsection \<open>The shell and the banner\<close>







subsection \<open>The claims\<close>

text \<open>
  C1, as amended. Substitution makes one pass over the user variables and then one
  pass over the computed variables, in the order of the maps, and each pass
  replaces in the text as it then is. For a placeholder \<open>{k}\<close> whose name has no
  brace and is defined by the computed map only, the result is the value of \<open>k\<close>
  after the replacements of the variables that follow \<open>k\<close> in the map: a
  placeholder in the value is left alone when it names \<open>k\<close> itself or a variable
  before \<open>k\<close>, and is expanded when it names a variable after \<open>k\<close>.
\<close>

theorem substitution_follows_map_order:
  assumes "CHR ''{'' \<notin> set k" "CHR ''}'' \<notin> set k"
    and "k \<notin> fst ` set us" "k \<notin> fst ` set pre"
  shows "replace_with_variables (''{'' @ k @ ''}'') (pre @ (k, v) # post) us = replace_each v post"
proof -
  have "replace_each (''{'' @ k @ ''}'') us = ''{'' @ k @ ''}''"
    using assms by (intro replace_each_other_keys)
  moreover have "replace_each (''{'' @ k @ ''}'') pre = ''{'' @ k @ ''}''"
    using assms by (intro replace_each_other_keys)
  moreover have "replace (''{'' @ k @ ''}'') (''{'' @ k @ ''}'') v = v"
    by (rule replace_self) simp
  ultimately show ?thesis
    by (simp add: replace_with_variables_def replace_each_append)
qed

text \<open>
  With \<open>b\<close> before \<open>a\<close> in the computed map the template \<open>{a}\<close> gives \<open>{b}\<close>; with
  \<open>a\<close> before \<open>b\<close> it gives \<open>X\<close>.
\<close>

theorem substitution_follows_map_order_witness:
  "replace_with_variables ''{a}'' [(''b'', ''X''), (''a'', ''{b}'')] [] = ''{b}''
   \<and> replace_with_variables ''{a}'' [(''a'', ''{b}''), (''b'', ''X'')] [] = ''X''"
  using substitution_follows_map_order[of "''a''" "[]" "[(''b'', ''X'')]" "''{b}''" "[]"]
    substitution_follows_map_order[of "''a''" "[]" "[]" "''{b}''" "[(''b'', ''X'')]"]
  by simp

text \<open>
  C1 as stated fails: for the computed map \<open>{a: "{b}", b: "X"}\<close> and no user
  variables, \<open>{a}\<close> resolves to \<open>X\<close> and not to \<open>{b}\<close>.
\<close>

theorem single_pass_counterexample:
  "replace_with_variables ''{a}'' [(''a'', ''{b}''), (''b'', ''X'')] [] = ''X''
   \<and> replace_with_variables ''{a}'' [(''a'', ''{b}''), (''b'', ''X'')] [] \<noteq> ''{b}''"
  by (simp add: replace_with_variables_def)

text \<open>
  C2 fails on the code. \<^verbatim>\<open>extract_variables\<close> returns the reference it was given
  and has written the declared variable into the dictionary at that reference.
  In a run with two projects, the variable \<open>v\<close> of the first project, which does
  not match, is substituted into the build step of the second project.
\<close>

theorem variables_leak_between_projects:
  "extract_variables (empty_node\<lparr>variables_key := Some [(''v'', ''A'')]\<rparr>) r u st
     = (r, st\<lparr>objs := (objs st)(r := dict_set (objs st r) ''v'' ''A'')\<rparr>)
   \<and> trace (snd (main (plain_world ''/x'' (\<lambda>_ _ _. 0)) default_args []
     (config_of
       [(''p1'', empty_node\<lparr>path_key := Some ''/nomatch'', variables_key := Some [(''v'', ''A'')]\<rparr>),
        (''p2'', empty_node\<lparr>path_key := Some ''/x'', build_key := Some [''echo {v}'']\<rparr>)])))
   = [Stdout (join '' '' [banner ''echo A'', ''&&'', ''echo A'']),
      Call (join '' '' [banner ''echo A'', ''&&'', ''echo A'']) ''/x'' []]"
proof -
  have "replace_with_variables ''A'' (objs st r) (objs st u) = ''A''"
    by (simp add: replace_with_variables_def replace_each_no_brace)
  then have "extract_variables (empty_node\<lparr>variables_key := Some [(''v'', ''A'')]\<rparr>) r u st
     = (r, st\<lparr>objs := (objs st)(r := dict_set (objs st r) ''v'' ''A'')\<rparr>)"
    by (simp add: extract_variables_def)
  then show ?thesis by (simp add: run_defs)
qed

text \<open>
  C3. When the projects before \<open>p\<close> in the mapping are not accepted and \<open>p\<close> is
  (\<^verbatim>\<open>get_path\<close> returns a non-empty match in the state the loop has reached, which
  is the state after the variable extraction of the earlier projects), the run is
  the build and test of \<open>p\<close> and nothing else, whatever projects follow \<open>p\<close>.
\<close>

theorem first_match_wins:
  assumes "no_match w pre v u st"
    and "st' = fold (\<lambda>np s. snd (extract_variables (snd np) v u s)) pre st"
    and "extract_variables p v u st' = (pv, st1)"
    and "get_path w p pv u st1 = (Inr (Some m), st2)"
    and "m \<noteq> []"
  shows "projects_loop w a (pre @ (n, p) # rest) v e u st = handle_project w a p m pv e u st1"
  using skip_prefix[OF assms(1), of a "(n, p) # rest" e]
    accepted_head[OF assms(3-5), of a n rest e] assms(2)
  by simp

text \<open>
  Three projects in the directory \<open>/x\<close>: the first does not match, the second and
  the third do. Only the build of the second is run.
\<close>

theorem first_match_wins_witness:
  "projects_loop (plain_world ''/x'' (\<lambda>_ _ _. 0)) default_args
     ([(''a'', empty_node\<lparr>path_key := Some ''/other'', variables_key := Some [(''v'', ''A'')]\<rparr>)]
       @ (''b'', empty_node\<lparr>path_key := Some ''/x'', build_key := Some [''make'']\<rparr>)
       # [(''c'', empty_node\<lparr>path_key := Some ''/x'', build_key := Some [''other'']\<rparr>)])
     1 2 0 \<lparr>objs = (\<lambda>_. []), trace = []\<rparr>
   = handle_project (plain_world ''/x'' (\<lambda>_ _ _. 0)) default_args
       (empty_node\<lparr>path_key := Some ''/x'', build_key := Some [''make'']\<rparr>) ''/x'' 1 2 0
       \<lparr>objs = (\<lambda>_. [])(1 := [(''v'', ''A'')]), trace = []\<rparr>
   \<and> trace (snd (handle_project (plain_world ''/x'' (\<lambda>_ _ _. 0)) default_args
       (empty_node\<lparr>path_key := Some ''/x'', build_key := Some [''make'']\<rparr>) ''/x'' 1 2 0
       \<lparr>objs = (\<lambda>_. [])(1 := [(''v'', ''A'')]), trace = []\<rparr>))
     = [Stdout (join '' '' [banner ''make'', ''&&'', ''make'']),
        Call (join '' '' [banner ''make'', ''&&'', ''make'']) ''/x'' []]"
  using first_match_wins[where w = "plain_world ''/x'' (\<lambda>_ _ _. 0)"
      and pre = "[(''a'', empty_node\<lparr>path_key := Some ''/other'', variables_key := Some [(''v'', ''A'')]\<rparr>)]"
      and v = 1 and u = 0 and st = "\<lparr>objs = (\<lambda>_. []), trace = []\<rparr>"
      and st' = "\<lparr>objs = (\<lambda>_. [])(1 := [(''v'', ''A'')]), trace = []\<rparr>"
      and p = "empty_node\<lparr>path_key := Some ''/x'', build_key := Some [''make'']\<rparr>"
      and pv = 1 and ?st1.0 = "\<lparr>objs = (\<lambda>_. [])(1 := [(''v'', ''A'')]), trace = []\<rparr>"
      and m = "''/x''" and ?st2.0 = "\<lparr>objs = (\<lambda>_. [])(1 := [(''v'', ''A'')]), trace = []\<rparr>"
      and a = default_args and n = "''b''" and e = 2
      and rest = "[(''c'', empty_node\<lparr>path_key := Some ''/x'', build_key := Some [''other'']\<rparr>)]"]
  by (simp add: run_defs)

text \<open>
  C4. Whenever a run of \<^verbatim>\<open>main\<close> has started a shell command that returned a
  non-zero exit code, the only thing that follows it in the trace is the error
  line naming the command, and the process ends with exit status 1. No command
  is started after it, so a failed build is never followed by the tests.
\<close>

theorem failing_command_is_fatal:
  assumes "trace (snd (main w a uv cfg)) = pre @ Call cmd cwd env # post"
    and "subprocess_call w cmd cwd env \<noteq> 0"
  shows "post = [Stderr (''ERROR: Execution of '' @ [CHR 0x22] @ cmd @ [CHR 0x22] @ '' failed.'')]
    \<and> exit_status (main w a uv cfg) = 1"
proof -
  obtain r st where m: "main w a uv cfg = (r, st)" by force
  have f: "fine w (r, st)" using main_fine[of w a uv cfg] m by simp
  from assms m have tr: "trace st = pre @ Call cmd cwd env # post" by simp
  then have "Call cmd cwd env \<in> set (trace st)" by simp
  with assms(2) have nnf: "\<not> no_fail w (trace st)" by (auto dest: no_fail_Call)
  with f obtain n where r: "r = Inl n" "n = 1" "failed_at w (trace st)"
    by (cases r) (auto simp: fine_def)
  from r(3) tr assms(2) have "post = [Stderr (failure_text cmd)]"
    by (auto dest: failed_at_split)
  with r m show ?thesis by (simp add: failure_text_def)
qed

text \<open>
  A project with a build step and a test step, run with \<^verbatim>\<open>--test\<close> by a shell that
  returns 1: the build command is the only command started.
\<close>

theorem failing_command_is_fatal_witness:
  "trace (snd (main (plain_world ''/x'' (\<lambda>_ _ _. 1)) (default_args\<lparr>arg_test := True\<rparr>) []
     (config_of [(''p'', empty_node\<lparr>path_key := Some ''/x'', build_key := Some [''make''],
                          test_key := Some [''make check'']\<rparr>)])))
   = [Stdout (join '' '' [banner ''make'', ''&&'', ''make''])]
     @ Call (join '' '' [banner ''make'', ''&&'', ''make'']) ''/x'' []
     # [Stderr (''ERROR: Execution of '' @ [CHR 0x22] @ join '' '' [banner ''make'', ''&&'', ''make'']
          @ [CHR 0x22] @ '' failed.'')]
   \<and> exit_status (main (plain_world ''/x'' (\<lambda>_ _ _. 1)) (default_args\<lparr>arg_test := True\<rparr>) []
     (config_of [(''p'', empty_node\<lparr>path_key := Some ''/x'', build_key := Some [''make''],
                          test_key := Some [''make check'']\<rparr>)])) = 1"
proof -
  let ?w = "plain_world ''/x'' (\<lambda>_ _ _. 1)"
  let ?cfg = "config_of [(''p'', empty_node\<lparr>path_key := Some ''/x'', build_key := Some [''make''],
                          test_key := Some [''make check'']\<rparr>)]"
  let ?c = "join '' '' [banner ''make'', ''&&'', ''make'']"
  have tr: "trace (snd (main ?w (default_args\<lparr>arg_test := True\<rparr>) [] ?cfg))
    = [Stdout ?c] @ Call ?c ''/x'' [] # [Stderr (''ERROR: Execution of '' @ [CHR 0x22] @ ?c
          @ [CHR 0x22] @ '' failed.'')]"
    by (simp add: run_defs)
  have nz: "subprocess_call ?w ?c ''/x'' [] \<noteq> 0"
    by (simp add: plain_world_def)
  from failing_command_is_fatal[OF tr nz] tr show ?thesis by simp
qed

text \<open>
  C5. If \<^verbatim>\<open>get_path\<close> accepts none of the projects (every project has a path
  pattern, and none of them matches the current directory with a non-empty
  match), the run writes the line \<^verbatim>\<open>ERROR: No matching configuration entry found.\<close>
  to standard error and nothing else, starts no command, and ends with exit
  status 1.
\<close>

theorem no_match_is_fatal:
  assumes "main_scopes a uv cfg = (v, e, u, st)"
    and "no_match w (projects cfg) v u st"
  shows "exit_status (main w a uv cfg) = 1 \<and>
    trace (snd (main w a uv cfg)) = [Stderr ''ERROR: No matching configuration entry found.'']"
proof -
  have t: "trace st = []" using assms(1) by (rule main_scopes_trace)
  have m: "main w a uv cfg = projects_loop w a (projects cfg) v e u st"
    using assms(1) by (simp add: main_def)
  obtain r st' where l: "projects_loop w a (projects cfg) v e u st = (r, st')" by force
  with no_match_loop[OF assms(2), of a e] t have "r = Inl 1"
    "trace st' = [Stderr ''ERROR: No matching configuration entry found.'']" by simp_all
  with m l show ?thesis by simp
qed

theorem no_match_is_fatal_witness:
  "exit_status (main (plain_world ''/x'' (\<lambda>_ _ _. 0)) default_args []
     (config_of [(''p'', empty_node\<lparr>path_key := Some ''/other'', build_key := Some [''make'']\<rparr>),
                 (''q'', empty_node\<lparr>path_key := Some ''/x/y'', build_key := Some [''make'']\<rparr>)])) = 1
   \<and> trace (snd (main (plain_world ''/x'' (\<lambda>_ _ _. 0)) default_args []
     (config_of [(''p'', empty_node\<lparr>path_key := Some ''/other'', build_key := Some [''make'']\<rparr>),
                 (''q'', empty_node\<lparr>path_key := Some ''/x/y'', build_key := Some [''make'']\<rparr>)])))
     = [Stderr ''ERROR: No matching configuration entry found.'']"
proof -
  let ?w = "plain_world ''/x'' (\<lambda>_ _ _. 0)"
  let ?cfg = "config_of [(''p'', empty_node\<lparr>path_key := Some ''/other'', build_key := Some [''make'']\<rparr>),
                 (''q'', empty_node\<lparr>path_key := Some ''/x/y'', build_key := Some [''make'']\<rparr>)]"
  let ?st = "\<lparr>objs = (\<lambda>_. [])(0 := [], 1 := [(''os'', ''fedora''), (''bt'', ''Release'')], 2 := []),
              trace = []\<rparr>"
  have s: "main_scopes default_args [] ?cfg = (1, 2, 0, ?st)"
    by (simp add: run_defs)
  have n: "no_match ?w (projects ?cfg) 1 0 ?st"
    by (simp add: run_defs)
  from no_match_is_fatal[OF s n] show ?thesis by simp
qed

text \<open>
  C6 fails on the code for the empty list. For a project whose \<^verbatim>\<open>build\<close> (or
  \<^verbatim>\<open>test\<close>) key is present with an empty list of steps, \<^verbatim>\<open>build\<close> (or \<^verbatim>\<open>test\<close>)
  calls \<^verbatim>\<open>execute_command\<close> with the empty command: it prints an empty line and
  starts a shell.
\<close>

theorem empty_step_list_calls_shell:
  "(\<exists>env rest.
     trace (snd (build w (p\<lparr>build_key := Some []\<rparr>) path v e u st)) =
       trace st @ Stdout [] # Call [] path env # rest) \<and>
   (\<exists>env rest.
     trace (snd (test w (p\<lparr>test_key := Some []\<rparr>) path v e u st)) =
       trace st @ Stdout [] # Call [] path env # rest)"
proof
  let ?p = "p\<lparr>build_key := Some []\<rparr>"
  obtain pv st1 where 1: "extract_variables ?p v u st = (pv, st1)" by force
  obtain pe st2 where 2: "extract_environment ?p e pv u st1 = (pe, st2)" by force
  from 1 2 have "trace st2 = trace st"
    by (auto dest!: extract_variables_result extract_environment_result)
  then show "\<exists>env rest.
     trace (snd (build w ?p path v e u st)) = trace st @ Stdout [] # Call [] path env # rest"
    using 1 2 by (simp add: build_def execute_command_def error_def Let_def)
next
  let ?p = "p\<lparr>test_key := Some []\<rparr>"
  obtain pv st1 where 1: "extract_variables ?p v u st = (pv, st1)" by force
  obtain pe st2 where 2: "extract_environment ?p e pv u st1 = (pe, st2)" by force
  from 1 2 have "trace st2 = trace st"
    by (auto dest!: extract_variables_result extract_environment_result)
  then show "\<exists>env rest.
     trace (snd (test w ?p path v e u st)) = trace st @ Stdout [] # Call [] path env # rest"
    using 1 2 by (simp add: test_def execute_command_def error_def Let_def)
qed



text \<open>
  C8, as amended. \<^verbatim>\<open>get_path\<close> ends the process with the fatal error (the line
  \<^verbatim>\<open>ERROR: No path in ...\<close> on standard error, exit status 1) exactly when the node
  has no \<^verbatim>\<open>path\<close> key. With the key it substitutes the variables into the
  pattern, expands the home directory and compiles the result: a text that is
  not a regular expression ends the process with the exception of \<^verbatim>\<open>re.compile\<close>,
  exit status 1; otherwise the result is \<^verbatim>\<open>None\<close> when the pattern has no match at
  the start of the current directory, and the matched text when it has one. A
  text that \<^verbatim>\<open>get_path\<close> returns is a prefix of the current directory.
\<close>

theorem get_path_outcomes:
  "(path_key root = None \<longrightarrow>
      get_path w root v u st =
        (Inl 1, st\<lparr>trace := trace st @ [Stderr (''ERROR: No path in '' @ str_of_node w root)]\<rparr>)) \<and>
   (\<forall>pat. path_key root = Some pat \<longrightarrow>
      (case re_compile w (expanduser w (replace_with_variables pat (objs st v) (objs st u))) of
         None \<Rightarrow> get_path w root v u st = (Inl 1, st\<lparr>trace := trace st @ [Traceback ''re.error'']\<rparr>)
       | Some regex \<Rightarrow>
           (case regex (getcwd w) of
              None \<Rightarrow> get_path w root v u st = (Inr None, st)
            | Some n \<Rightarrow> get_path w root v u st = (Inr (Some (take n (getcwd w))), st)))) \<and>
   (\<forall>m st'. get_path w root v u st = (Inr (Some m), st') \<longrightarrow> prefix m (getcwd w)) \<and>
   ((\<exists>t st'. get_path w root v u st = (Inl 1, st') \<and> trace st' = trace st @ [Stderr t])
      = (path_key root = None))"
proof (cases "path_key root")
  case None
  then show ?thesis by (simp add: get_path_def error_def)
next
  case (Some pat)
  let ?p = "expanduser w (replace_with_variables pat (objs st v) (objs st u))"
  show ?thesis
  proof (cases "re_compile w ?p")
    case None
    with Some show ?thesis by (simp add: get_path_def uncaught_def)
  next
    case c: (Some regex)
    show ?thesis
    proof (cases "regex (getcwd w)")
      case None
      with Some c show ?thesis by (simp add: get_path_def)
    next
      case n: (Some n)
      have "prefix (take n (getcwd w)) (getcwd w)" by (rule take_is_prefix)
      with Some c n show ?thesis by (simp add: get_path_def)
    qed
  qed
qed

text \<open>
  In the directory \<open>/home/user/proj/sub\<close>: the pattern \<open>/home/{who}/{dir}\<close>, with
  the computed variables \<open>who = nobody\<close> and \<open>dir = proj\<close> and the user variable
  \<open>who = user\<close>, gives \<open>/home/user/proj\<close>; the pattern \<open>/other\<close> gives \<^verbatim>\<open>None\<close>; the
  text \<open>(\<close> ends the process with the exception; a node without a path ends it
  with the fatal error.
\<close>

theorem get_path_outcomes_witness:
  "get_path (plain_world ''/home/user/proj/sub'' (\<lambda>_ _ _. 0))
     (empty_node\<lparr>path_key := Some ''/home/{who}/{dir}''\<rparr>) 1 0
     \<lparr>objs = (\<lambda>_. [])(0 := [(''who'', ''user'')],
                       1 := [(''who'', ''nobody''), (''dir'', ''proj'')]), trace = []\<rparr>
     = (Inr (Some ''/home/user/proj''),
        \<lparr>objs = (\<lambda>_. [])(0 := [(''who'', ''user'')],
                       1 := [(''who'', ''nobody''), (''dir'', ''proj'')]), trace = []\<rparr>)
   \<and> get_path (plain_world ''/home/user/proj/sub'' (\<lambda>_ _ _. 0))
     (empty_node\<lparr>path_key := Some ''/other''\<rparr>) 1 0 \<lparr>objs = (\<lambda>_. []), trace = []\<rparr>
     = (Inr None, \<lparr>objs = (\<lambda>_. []), trace = []\<rparr>)
   \<and> get_path (plain_world ''/home/user/proj/sub'' (\<lambda>_ _ _. 0))
     (empty_node\<lparr>path_key := Some ''(''\<rparr>) 1 0 \<lparr>objs = (\<lambda>_. []), trace = []\<rparr>
     = (Inl 1, \<lparr>objs = (\<lambda>_. []), trace = [Traceback ''re.error'']\<rparr>)
   \<and> get_path (plain_world ''/home/user/proj/sub'' (\<lambda>_ _ _. 0))
     empty_node 1 0 \<lparr>objs = (\<lambda>_. []), trace = []\<rparr>
     = (Inl 1, \<lparr>objs = (\<lambda>_. []), trace = [Stderr ''ERROR: No path in {}'']\<rparr>)"
  using get_path_outcomes[of "empty_node\<lparr>path_key := Some ''/home/{who}/{dir}''\<rparr>"
      "plain_world ''/home/user/proj/sub'' (\<lambda>_ _ _. 0)" 1 0
      "\<lparr>objs = (\<lambda>_. [])(0 := [(''who'', ''user'')],
                       1 := [(''who'', ''nobody''), (''dir'', ''proj'')]), trace = []\<rparr>"]
    get_path_outcomes[of "empty_node\<lparr>path_key := Some ''/other''\<rparr>"
      "plain_world ''/home/user/proj/sub'' (\<lambda>_ _ _. 0)" 1 0 "\<lparr>objs = (\<lambda>_. []), trace = []\<rparr>"]
    get_path_outcomes[of "empty_node\<lparr>path_key := Some ''(''\<rparr>"
      "plain_world ''/home/user/proj/sub'' (\<lambda>_ _ _. 0)" 1 0 "\<lparr>objs = (\<lambda>_. []), trace = []\<rparr>"]
    get_path_outcomes[of "empty_node"
      "plain_world ''/home/user/proj/sub'' (\<lambda>_ _ _. 0)" 1 0 "\<lparr>objs = (\<lambda>_. []), trace = []\<rparr>"]
  by (simp add: plain_world_def empty_node_def replace_with_variables_def)

text \<open>
  C8 as stated fails: a node that has the \<^verbatim>\<open>path\<close> key with the text \<open>(\<close> ends the
  process with exit status 1, and no matched text or \<^verbatim>\<open>None\<close> is returned.
\<close>

theorem get_path_invalid_pattern_counterexample:
  "path_key (empty_node\<lparr>path_key := Some ''(''\<rparr>) \<noteq> None
   \<and> get_path (plain_world ''/home/user/proj/sub'' (shell_returns 0))
        (empty_node\<lparr>path_key := Some ''(''\<rparr>) 1 0 empty_state
     = (Inl 1, empty_state\<lparr>trace := [Traceback ''re.error'']\<rparr>)"
  by (simp add: plain_world_def empty_node_def empty_state_def get_path_def uncaught_def
      replace_with_variables_def)




text \<open>
  C10. When \<^verbatim>\<open>get_path\<close> returns the empty string for a project (the pattern
  matched the empty prefix of the current directory), the loop goes on to the
  next project, as it does for \<^verbatim>\<open>None\<close>: nothing of the project is run.
\<close>

theorem empty_match_is_skipped:
  assumes "extract_variables p v u st = (pv, st1)"
    and "get_path w p pv u st1 = (Inr (Some []), st2)"
  shows "projects_loop w a ((n, p) # rest) v e u st = projects_loop w a rest v e u st1"
proof -
  from get_path_result[OF assms(2)] have "st2 = st1" by auto
  with assms show ?thesis by simp
qed

text \<open>
  The empty pattern matches the empty prefix of \<open>/x\<close>; a configuration whose only
  project has it ends with the error for no matching entry.
\<close>

theorem empty_match_is_skipped_witness:
  "projects_loop (plain_world ''/x'' (\<lambda>_ _ _. 0)) default_args
     [(''p'', empty_node\<lparr>path_key := Some [], build_key := Some [''make'']\<rparr>)]
     1 2 0 \<lparr>objs = (\<lambda>_. []), trace = []\<rparr>
   = (Inl 1, \<lparr>objs = (\<lambda>_. []),
        trace = [Stderr ''ERROR: No matching configuration entry found.'']\<rparr>)
   \<and> get_path (plain_world ''/x'' (\<lambda>_ _ _. 0))
        (empty_node\<lparr>path_key := Some [], build_key := Some [''make'']\<rparr>) 1 0
        \<lparr>objs = (\<lambda>_. []), trace = []\<rparr>
     = (Inr (Some []), \<lparr>objs = (\<lambda>_. []), trace = []\<rparr>)"
  using empty_match_is_skipped[where w = "plain_world ''/x'' (\<lambda>_ _ _. 0)"
      and p = "empty_node\<lparr>path_key := Some [], build_key := Some [''make'']\<rparr>"
      and v = 1 and u = 0 and st = "\<lparr>objs = (\<lambda>_. []), trace = []\<rparr>" and pv = 1
      and ?st1.0 = "\<lparr>objs = (\<lambda>_. []), trace = []\<rparr>"
      and ?st2.0 = "\<lparr>objs = (\<lambda>_. []), trace = []\<rparr>"
      and a = default_args and n = "''p''" and rest = "[]" and e = 2]
  by (simp add: run_defs)

end
